theory Spec2Isabelle
  imports Complex_Main
begin

section \<open>The embedding-and-retrieval pipeline of \<open>src/open-ai-embedding.py\<close>\<close>

text \<open>
  The module reads one corpus file, cuts it into windows of at most
  \<open>max_chunk_size\<close> characters, asks an embedding service for one vector per
  window, stores the vectors in a flat L2 index, writes the index and the chunk list
  to two files, and later answers queries from the two files.

  What the model abstracts:
  \<^item> Python strings are \<open>string\<close>; one \<open>char\<close> stands for one code point (below 256).
  \<^item> Floating-point numbers (embeddings, distances, similarities) are \<open>real\<close>;
    rounding, infinities and NaN are not part of the model.
  \<^item> The two network services and the outcome of the two file writes are fields
    of an environment record; console output is not modelled.
\<close>

subsection \<open>Exceptions\<close>

datatype error =
    FileNotFoundError
  | LoadError
  | IndexError
  | ValueError
  | AssertionError
  | WriteError
  | ProviderError string

text \<open>\<open>str(e)\<close>: a service error carries its own message; the messages of the
  built-in exceptions are shortened, no property below depends on them.\<close>

fun error_text :: "error \<Rightarrow> string" where
  "error_text (ProviderError msg) = msg"
| "error_text FileNotFoundError = ''No such file or directory''"
| "error_text LoadError = ''could not load''"
| "error_text IndexError = ''list index out of range''"
| "error_text ValueError = ''invalid value''"
| "error_text AssertionError = []"
| "error_text WriteError = ''could not write''"

subsection \<open>Data\<close>

text \<open>An element of \<open>embedded_chunks\<close>: the dict with keys \<open>chunk_id\<close>, \<open>text\<close> (here \<open>chunk_text\<close>)
  and \<open>embedding\<close>.\<close>

record chunk =
  chunk_id :: string
  chunk_text :: string
  embedding :: "real list"

text \<open>An element of the list \<open>search_similar_chunks\<close> returns (keys
  \<open>chunk_id\<close>, \<open>text\<close>, \<open>similarity\<close>).\<close>

record search_result =
  result_chunk_id :: string
  result_text :: string
  similarity :: real

text \<open>The flat index: its dimension and the vectors added so far (\<open>ntotal\<close> is their number).\<close>

record faiss_index =
  index_d :: nat
  vectors :: "real list list"

definition ntotal :: "faiss_index \<Rightarrow> nat" where
  "ntotal index = length (vectors index)"

text \<open>A file on disk: not there, there but unreadable for its reader, or holding a value.\<close>

datatype 'a disk_file = Absent | Corrupt | Stored 'a

text \<open>The three files the module touches: \<open>src/code_folder/content.txt\<close>,
  \<open>src/code_folder/embedding/content.index\<close> and
  \<open>src/code_folder/embedding/embedded_chunks.pkl\<close>.\<close>

record filesystem =
  content_txt :: "string disk_file"
  content_index :: "faiss_index disk_file"
  embedded_chunks_pkl :: "chunk list disk_file"

text \<open>What an attempt to write a file does: it succeeds, it cannot open the file
  (the old content stays), or it fails after the file was opened for writing
  (the old content is gone and what is there cannot be read back).\<close>

datatype write_outcome = Written | Refused | Truncated

text \<open>The environment: \<open>embed\<close> is
  \<open>client.embeddings.create(input=[text], model=model).data[0].embedding\<close>,
  \<open>generate\<close> is the chat completion with
  \<open>.choices[0].message.content\<close> taken from the response; both may raise.\<close>

record env =
  embed :: "string \<Rightarrow> error + real list"
  generate :: "string \<Rightarrow> error + string"
  index_write :: write_outcome
  pickle_write :: write_outcome

definition read_file :: "'a disk_file \<Rightarrow> error + 'a" where
  "read_file f = (case f of Absent \<Rightarrow> Inl FileNotFoundError
                          | Corrupt \<Rightarrow> Inl LoadError
                          | Stored x \<Rightarrow> Inr x)"

definition write_file :: "write_outcome \<Rightarrow> 'a \<Rightarrow> 'a disk_file \<Rightarrow> (error + unit) \<times> 'a disk_file" where
  "write_file outcome x old = (case outcome of
       Written \<Rightarrow> (Inr (), Stored x)
     | Refused \<Rightarrow> (Inl WriteError, old)
     | Truncated \<Rightarrow> (Inl WriteError, Corrupt))"

subsection \<open>Python helpers\<close>

text \<open>\<open>range(0, n, step)\<close>; a step of zero raises \<open>ValueError\<close>.\<close>

definition py_range :: "nat \<Rightarrow> nat \<Rightarrow> error + nat list" where
  "py_range n step =
     (if step = 0 then Inl ValueError
      else Inr (map (\<lambda>j. j * step) [0..<(n + step - 1) div step]))"

text \<open>\<open>xs[i:j]\<close> for \<open>0 \<le> i \<le> j\<close>.\<close>

definition slice :: "'a list \<Rightarrow> nat \<Rightarrow> nat \<Rightarrow> 'a list" where
  "slice xs i j = take (j - i) (drop i xs)"

text \<open>\<open>xs[i]\<close>: a negative index counts from the end, an index out of range raises.\<close>

definition py_index :: "'a list \<Rightarrow> int \<Rightarrow> error + 'a" where
  "py_index xs i =
     (if 0 \<le> i \<and> i < int (length xs) then Inr (xs ! nat i)
      else if i < 0 \<and> - int (length xs) \<le> i then Inr (xs ! nat (int (length xs) + i))
      else Inl IndexError)"

text \<open>\<open>str(n)\<close> for a non-negative integer.\<close>

fun str :: "nat \<Rightarrow> string" where
  "str n = (if n < 10 then [''0123456789'' ! n]
            else str (n div 10) @ [''0123456789'' ! (n mod 10)])"

declare str.simps [simp del]

text \<open>\<open>str.isspace\<close> on one code point below 256.\<close>

definition isspace :: "char \<Rightarrow> bool" where
  "isspace c = ((of_char c :: nat) \<in> {9, 10, 11, 12, 13, 28, 29, 30, 31, 32, 133, 160})"

definition strip :: "string \<Rightarrow> string" where
  "strip s = rev (dropWhile isspace (rev (dropWhile isspace s)))"

text \<open>\<open>str.lower\<close> on code points below 256: A-Z and the upper-case letters of Latin-1.\<close>

definition lower_char :: "char \<Rightarrow> char" where
  "lower_char c =
     (let n = (of_char c :: nat)
      in if (65 \<le> n \<and> n \<le> 90) \<or> (192 \<le> n \<and> n \<le> 222 \<and> n \<noteq> 215)
         then char_of (n + 32) else c)"

definition lower :: "string \<Rightarrow> string" where
  "lower s = map lower_char s"

definition startswith :: "string \<Rightarrow> char \<Rightarrow> bool" where
  "startswith s c = (case s of [] \<Rightarrow> False | x # _ \<Rightarrow> x = c)"

text \<open>\<open>sep.join(parts)\<close>.\<close>

fun join :: "string \<Rightarrow> string list \<Rightarrow> string" where
  "join sep [] = []"
| "join sep [x] = x"
| "join sep (x # y # ys) = x @ sep @ join sep (y # ys)"

subsection \<open>\<open>get_embedding\<close>\<close>

definition get_embedding :: "env \<Rightarrow> string \<Rightarrow> error + real list" where
  "get_embedding e txt =
     embed e (map (\<lambda>c. if c = CHR 0x0A then CHR '' '' else c) txt)"

subsection \<open>\<open>store_in_faiss\<close> and the index\<close>

definition IndexFlatL2 :: "nat \<Rightarrow> faiss_index" where
  "IndexFlatL2 dimension = \<lparr>index_d = dimension, vectors = []\<rparr>"

text \<open>\<open>np.array(rows, dtype=np.float32)\<close>: rows of unequal length raise.\<close>

definition np_array :: "real list list \<Rightarrow> error + real list list" where
  "np_array rows =
     (case rows of [] \<Rightarrow> Inr []
      | r # rs \<Rightarrow> if list_all (\<lambda>x. length x = length r) rs then Inr rows else Inl ValueError)"

text \<open>Modelled from the spec: \<open>index.add\<close> belongs to the faiss library, which is not
  among the sources. "add(vectors): appends in order; fails if any vector's length
  differs from D", leaving the index unchanged.\<close>

definition index_add :: "faiss_index \<Rightarrow> real list list \<Rightarrow> error + faiss_index" where
  "index_add index xs =
     (if list_all (\<lambda>x. length x = index_d index) xs
      then Inr (index\<lparr>vectors := vectors index @ xs\<rparr>)
      else Inl AssertionError)"

text \<open>The squared Euclidean distance, the number a flat L2 index reports.\<close>

definition l2_distance :: "real list \<Rightarrow> real list \<Rightarrow> real" where
  "l2_distance x y = (\<Sum>(a, b) \<leftarrow> zip x y. (a - b)\<^sup>2)"

text \<open>The largest float32, the distance the library reports in an unused result slot.\<close>

definition FLT_MAX :: real where
  "FLT_MAX = 340282346638528859811704183484516925440"

text \<open>Modelled from the spec: \<open>index.search\<close> belongs to the faiss library, which is
  not among the sources. "search(query, k): ordered sequence of (position, distance),
  ascending distance, length = min(k, count); ties broken by insertion order (lower
  position first)", over flat (exhaustive) storage with L2 distance: every stored
  vector is scored, the scores are sorted by a stable sort, the first \<open>k\<close> are kept.\<close>

definition nearest :: "faiss_index \<Rightarrow> real list \<Rightarrow> nat \<Rightarrow> (real \<times> int) list" where
  "nearest index query k =
     take k (sort_key fst
       (map (\<lambda>(i, v). (l2_distance query v, int i))
            (zip [0..<length (vectors index)] (vectors index))))"

text \<open>Modelled from the spec: the call \<open>index.search(query_vector, top_k)\<close> as the
  caller sees it. The library returns one row of exactly \<open>k\<close> distances and one row
  of exactly \<open>k\<close> positions: the slots after the first \<open>min(k, count)\<close> hold
  position \<open>-1\<close>, which is the padding the caller's validity check expects. A query
  of the wrong dimension fails.\<close>

definition index_search :: "faiss_index \<Rightarrow> real list \<Rightarrow> nat \<Rightarrow> error + (real list \<times> int list)" where
  "index_search index query k =
     (if length query \<noteq> index_d index then Inl AssertionError
      else
        let best = nearest index query k;
            slots = best @ replicate (k - length best) (FLT_MAX, - 1)
        in Inr (map fst slots, map snd slots))"

definition store_in_faiss :: "chunk list \<Rightarrow> error + (faiss_index \<times> chunk list)" where
  "store_in_faiss embedded_chunks =
     (case py_index embedded_chunks 0 of
        Inl e \<Rightarrow> Inl e
      | Inr first \<Rightarrow>
          let dimension = length (embedding first);
              index = IndexFlatL2 dimension
          in (case np_array (map embedding embedded_chunks) of
                Inl e \<Rightarrow> Inl e
              | Inr embeddings \<Rightarrow>
                  (case index_add index embeddings of
                     Inl e \<Rightarrow> Inl e
                   | Inr index' \<Rightarrow> Inr (index', embedded_chunks))))"

subsection \<open>\<open>process_content_file\<close>\<close>

definition max_chunk_size :: nat where
  "max_chunk_size = 10000"

text \<open>Line 40: \<open>[content[i:i+max_chunk_size] for i in range(0, len(content), max_chunk_size)]\<close>.\<close>

definition split_content :: "nat \<Rightarrow> string \<Rightarrow> error + string list" where
  "split_content max_size content =
     (case py_range (length content) max_size of
        Inl e \<Rightarrow> Inl e
      | Inr starts \<Rightarrow> Inr (map (\<lambda>i. slice content i (i + max_size)) starts))"

text \<open>Lines 44-52: the loop over \<open>enumerate(chunks)\<close>; \<open>i\<close> is the loop counter.\<close>

fun embed_chunks :: "env \<Rightarrow> nat \<Rightarrow> string list \<Rightarrow> error + chunk list" where
  "embed_chunks e i [] = Inr []"
| "embed_chunks e i (c # cs) =
     (case get_embedding e c of
        Inl err \<Rightarrow> Inl err
      | Inr v \<Rightarrow>
          (case embed_chunks e (i + 1) cs of
             Inl err \<Rightarrow> Inl err
           | Inr rest \<Rightarrow> Inr (\<lparr>chunk_id = str (i + 1), chunk_text = c, embedding = v\<rparr> # rest)))"

text \<open>Lines 36-52 and 71-81: the value of \<open>embedded_chunks\<close> in either branch, for a
  maximum chunk size \<open>max_size\<close> (the source fixes it to \<open>max_chunk_size\<close>).\<close>

definition embedded_chunks_of :: "nat \<Rightarrow> env \<Rightarrow> string \<Rightarrow> error + chunk list" where
  "embedded_chunks_of max_size e content =
     (if length content > max_size then
        (case split_content max_size content of
           Inl err \<Rightarrow> Inl err
         | Inr chunks \<Rightarrow> embed_chunks e 0 chunks)
      else
        (case get_embedding e content of
           Inl err \<Rightarrow> Inl err
         | Inr v \<Rightarrow> Inr [\<lparr>chunk_id = ''full'', chunk_text = content, embedding = v\<rparr>]))"

text \<open>Lines 59-67 and 88-96, the same in both branches: the index file is written
  first, the chunk list second; an exception in the first write skips the second.
  A failure of \<open>os.makedirs\<close> counts as a first write that cannot open its file.\<close>

definition save_artifacts :: "env \<Rightarrow> faiss_index \<Rightarrow> chunk list \<Rightarrow> filesystem \<Rightarrow> bool \<times> filesystem" where
  "save_artifacts e index embedded_chunks fs =
     (case write_file (index_write e) index (content_index fs) of
        (Inl err, f) \<Rightarrow> (False, fs\<lparr>content_index := f\<rparr>)
      | (Inr u, f) \<Rightarrow>
          (case write_file (pickle_write e) embedded_chunks (embedded_chunks_pkl fs) of
             (Inl err, g) \<Rightarrow> (False, fs\<lparr>content_index := f, embedded_chunks_pkl := g\<rparr>)
           | (Inr u', g) \<Rightarrow> (True, fs\<lparr>content_index := f, embedded_chunks_pkl := g\<rparr>)))"

text \<open>The function with the chunk size as a parameter; the result is the returned
  flag and the files afterwards.\<close>

definition process_content_file_sized :: "nat \<Rightarrow> env \<Rightarrow> filesystem \<Rightarrow> bool \<times> filesystem" where
  "process_content_file_sized max_size e fs =
     (case read_file (content_txt fs) of
        Inl err \<Rightarrow> (False, fs)
      | Inr content \<Rightarrow>
          (case embedded_chunks_of max_size e content of
             Inl err \<Rightarrow> (False, fs)
           | Inr embedded_chunks \<Rightarrow>
               (case store_in_faiss embedded_chunks of
                  Inl err \<Rightarrow> (False, fs)
                | Inr (index, u) \<Rightarrow> save_artifacts e index embedded_chunks fs)))"

definition process_content_file :: "env \<Rightarrow> filesystem \<Rightarrow> bool \<times> filesystem" where
  "process_content_file e fs = process_content_file_sized max_chunk_size e fs"

subsection \<open>\<open>load_faiss_index\<close>\<close>

text \<open>The pair \<open>(index, embedded_chunks)\<close>, or \<open>(None, None)\<close> after any exception.\<close>

definition load_faiss_index :: "filesystem \<Rightarrow> faiss_index option \<times> chunk list option" where
  "load_faiss_index fs =
     (case read_file (content_index fs) of
        Inl err \<Rightarrow> (None, None)
      | Inr index \<Rightarrow>
          (case read_file (embedded_chunks_pkl fs) of
             Inl err \<Rightarrow> (None, None)
           | Inr embedded_chunks \<Rightarrow> (Some index, Some embedded_chunks)))"

text \<open>The load operation as the specification words it, for comparison with the code:
  "fails with ArtifactNotFoundError if either file is missing, and with
  ArtifactCorruptError if deserialization fails or the count invariant
  (len(chunks) == index.count) is violated".\<close>

datatype artifact_error = ArtifactNotFoundError | ArtifactCorruptError

definition spec_load :: "filesystem \<Rightarrow> artifact_error + (faiss_index \<times> chunk list)" where
  "spec_load fs =
     (if content_index fs = Absent \<or> embedded_chunks_pkl fs = Absent then Inl ArtifactNotFoundError
      else case (content_index fs, embedded_chunks_pkl fs) of
             (Stored index, Stored chunks) \<Rightarrow>
               if length chunks = ntotal index then Inr (index, chunks)
               else Inl ArtifactCorruptError
           | _ \<Rightarrow> Inl ArtifactCorruptError)"

subsection \<open>\<open>search_similar_chunks\<close>\<close>

text \<open>Line 190: \<open>1.0 / (1.0 + distances[0][i])\<close>, read as a formula over the real
  numbers. The source evaluates it in floating point, where the sum and the quotient
  are rounded: the order of the results survives rounding, exact values and strict
  inequalities do not.\<close>

definition similarity_of :: "real \<Rightarrow> real" where
  "similarity_of distance = 1 / (1 + distance)"

text \<open>Lines 184-196: the loop over \<open>enumerate(indices[0])\<close>; \<open>i\<close> is the loop counter,
  \<open>distances\<close> and \<open>indices\<close> are the rows \<open>distances[0]\<close> and \<open>indices[0]\<close>.\<close>

fun prepare_results :: "chunk list \<Rightarrow> real list \<Rightarrow> nat \<Rightarrow> int list \<Rightarrow> error + search_result list" where
  "prepare_results embedded_chunks distances i [] = Inr []"
| "prepare_results embedded_chunks distances i (idx # rest) =
     (if idx < int (length embedded_chunks) \<and> idx \<ge> 0 then
        (case py_index embedded_chunks idx of
           Inl err \<Rightarrow> Inl err
         | Inr chunk \<Rightarrow>
             (case py_index distances (int i) of
                Inl err \<Rightarrow> Inl err
              | Inr distance \<Rightarrow>
                  (case prepare_results embedded_chunks distances (i + 1) rest of
                     Inl err \<Rightarrow> Inl err
                   | Inr results \<Rightarrow>
                       Inr (\<lparr>result_chunk_id = chunk_id chunk, result_text = chunk_text chunk,
                             similarity = similarity_of distance\<rparr> # results))))
      else prepare_results embedded_chunks distances (i + 1) rest)"

text \<open>The body of the \<open>try\<close> block.\<close>

definition search_similar_chunks_try :: "env \<Rightarrow> filesystem \<Rightarrow> string \<Rightarrow> nat \<Rightarrow> error + search_result list" where
  "search_similar_chunks_try e fs query top_k =
     (case load_faiss_index fs of
        (Some index, Some embedded_chunks) \<Rightarrow>
          (case get_embedding e query of
             Inl err \<Rightarrow> Inl err
           | Inr query_embedding \<Rightarrow>
               (case index_search index query_embedding top_k of
                  Inl err \<Rightarrow> Inl err
                | Inr (distances, indices) \<Rightarrow>
                    prepare_results embedded_chunks distances 0 indices))
      | _ \<Rightarrow> Inr [])"

definition search_similar_chunks :: "env \<Rightarrow> filesystem \<Rightarrow> string \<Rightarrow> nat \<Rightarrow> search_result list" where
  "search_similar_chunks e fs query top_k =
     (case search_similar_chunks_try e fs query top_k of
        Inl err \<Rightarrow> []
      | Inr results \<Rightarrow> results)"

subsection \<open>\<open>answer_question\<close>\<close>

definition nl :: string where
  "nl = [CHR 0x0A]"

definition prompt_of :: "string \<Rightarrow> string \<Rightarrow> string" where
  "prompt_of context query =
     ''You are an expert software engineer.'' @ nl @
     ''        Based on the following code context, answer the question.'' @ nl @
     ''        '' @ nl @
     ''        Context:'' @ nl @
     ''        '' @ context @ nl @
     nl @
     ''        Question: '' @ query @ nl @
     ''        '' @ nl @
     ''        # Keep below thing in mind while answering the question:'' @ nl @
     ''        - Your final output should always be a concise answer to the question.'' @ nl @
     ''        - Also provide the relevant code snippets if necessary.'' @ nl @
     ''        - Generate the final a concise answer in markdown format.'' @ nl @
     ''        ''"

text \<open>The body of the \<open>try\<close> block.\<close>

definition answer_question_try :: "env \<Rightarrow> filesystem \<Rightarrow> string \<Rightarrow> error + string" where
  "answer_question_try e fs query =
     (let results = search_similar_chunks e fs query 5
      in if results = [] then
           Inr ''I couldn't find any relevant information in the codebase to answer your question.''
         else
           let context = join (nl @ nl @ ''---'' @ nl @ nl) (map result_text results)
           in generate e (prompt_of context query))"

definition answer_question :: "env \<Rightarrow> filesystem \<Rightarrow> string \<Rightarrow> string" where
  "answer_question e fs query =
     (case answer_question_try e fs query of
        Inr answer \<Rightarrow> answer
      | Inl err \<Rightarrow>
          ''Sorry, I encountered an error while trying to answer your question: '' @ error_text err)"

subsection \<open>\<open>interactive_search\<close>\<close>

text \<open>What one pass through the loop body does with the line it read.\<close>

datatype turn =
    Quit
  | InvalidQuery
  | NoQuestion
  | AskQuestion string
  | CodeSearch string nat

text \<open>Lines 273-301: the branch taken for the line \<open>query\<close>. \<open>AskQuestion q\<close> is the
  call \<open>answer_question(q)\<close>, \<open>CodeSearch q k\<close> the call
  \<open>search_similar_chunks(q, top_k=k)\<close>.\<close>

definition dispatch :: "string \<Rightarrow> turn" where
  "dispatch query =
     (if lower query \<in> set [''quit'', ''exit'', ''q''] then Quit
      else if strip query = [] then InvalidQuery
      else if startswith (strip query) (CHR ''?'') then
        (let question = strip (drop 1 (strip query))
         in if question = [] then NoQuestion else AskQuestion question)
      else CodeSearch query 3)"

text \<open>How the session ends: by the \<open>break\<close>, or by \<open>input()\<close> raising at the end of
  the input.\<close>

datatype session_end = Goodbye | EndOfInput

text \<open>The loop over the lines of standard input. After a search with \<open>n\<close> results the
  loop over the results reads one further line per result ("See full content?").\<close>

function interactive_search :: "env \<Rightarrow> filesystem \<Rightarrow> string list \<Rightarrow> turn list \<times> session_end" where
  "interactive_search e fs [] = ([], EndOfInput)"
| "interactive_search e fs (query # rest) =
     (case dispatch query of
        Quit \<Rightarrow> ([Quit], Goodbye)
      | CodeSearch q k \<Rightarrow>
          (let n = length (search_similar_chunks e fs q k)
           in if length rest < n then ([CodeSearch q k], EndOfInput)
              else (case interactive_search e fs (drop n rest) of
                      (turns, ending) \<Rightarrow> (CodeSearch q k # turns, ending)))
      | t \<Rightarrow>
          (case interactive_search e fs rest of
             (turns, ending) \<Rightarrow> (t # turns, ending)))"
  by pat_completeness auto
termination
  by (relation "measure (\<lambda>(e, fs, lines). length lines)") auto

subsection \<open>Concrete environments and inputs used in the examples\<close>

text \<open>An embedding service that returns the number of characters of its input as a
  vector of dimension one, a generation service that answers \<open>ok\<close>, and writes that
  succeed.\<close>

definition counting_env :: env where
  "counting_env =
     \<lparr>embed = (\<lambda>t. Inr [real (length t)]), generate = (\<lambda>p. Inr ''ok''),
      index_write = Written, pickle_write = Written\<rparr>"

text \<open>The chunk list of the corpus \<open>AAAA BBBB\<close> cut at four characters and embedded by
  \<open>counting_env\<close>, the index built from it, and the files after that run.\<close>

definition sample_chunks :: "chunk list" where
  "sample_chunks =
     [\<lparr>chunk_id = ''1'', chunk_text = ''AAAA'', embedding = [4]\<rparr>,
      \<lparr>chunk_id = ''2'', chunk_text = '' BBB'', embedding = [4]\<rparr>,
      \<lparr>chunk_id = ''3'', chunk_text = ''B'', embedding = [1]\<rparr>]"

definition sample_index :: faiss_index where
  "sample_index = \<lparr>index_d = 1, vectors = [[4], [4], [1]]\<rparr>"

definition sample_fs :: filesystem where
  "sample_fs = \<lparr>content_txt = Stored ''AAAA BBBB'', content_index = Stored sample_index,
                embedded_chunks_pkl = Stored sample_chunks\<rparr>"

text \<open>Services that fail: the embedding service refuses texts shorter than four
  characters, the generation service always fails.\<close>

definition flaky_env :: env where
  "flaky_env =
     \<lparr>embed = (\<lambda>t. if length t < 4 then Inl (ProviderError ''rate limit'') else Inr [real (length t)]),
      generate = (\<lambda>p. Inl (ProviderError ''rate limit'')),
      index_write = Written, pickle_write = Written\<rparr>"

text \<open>A corpus file and no artifacts yet.\<close>

definition fresh_fs :: "string \<Rightarrow> filesystem" where
  "fresh_fs content = \<lparr>content_txt = Stored content, content_index = Absent, embedded_chunks_pkl = Absent\<rparr>"

text \<open>An index of three vectors beside a chunk list of one entry.\<close>

definition mismatched_fs :: filesystem where
  "mismatched_fs =
     \<lparr>content_txt = Stored ''AAAA BBBB'', content_index = Stored sample_index,
      embedded_chunks_pkl = Stored [\<lparr>chunk_id = ''full'', chunk_text = ''AAAA'', embedding = [4]\<rparr>]\<rparr>"

section \<open>Properties\<close>

subsection \<open>Chunking\<close>

lemma concat_windows:
  "concat (map (\<lambda>i. slice xs i (i + m)) (map (\<lambda>j. j * m) [0..<n])) = take (n * m) xs"
proof (induction n)
  case 0
  show ?case by simp
next
  case (Suc n)
  have "take (n * m) xs @ take m (drop (n * m) xs) = take (n * m + m) xs"
    by (simp add: take_add)
  with Suc show ?case by (simp add: slice_def add.commute)
qed

lemma windows_cover: "0 < m \<Longrightarrow> n \<le> ((n + m - 1) div m) * (m::nat)"
proof -
  assume m: "0 < m"
  have "n + m - 1 < ((n + m - 1) div m) * m + m"
    using m by (metis add.commute div_mult_mod_eq add_less_cancel_left mod_less_divisor mult.commute)
  then show ?thesis using m by linarith
qed

lemma split_content_concat:
  assumes "split_content m content = Inr chunks"
  shows "concat chunks = content"
proof -
  from assms have m: "0 < m"
    by (auto simp: split_content_def py_range_def split: if_splits)
  from assms m have "chunks = map (\<lambda>i. slice content i (i + m)) (map (\<lambda>j. j * m) [0..<(length content + m - 1) div m])"
    by (auto simp: split_content_def py_range_def)
  then have "concat chunks = take (((length content + m - 1) div m) * m) content"
    by (simp only: concat_windows)
  then show ?thesis using windows_cover [OF m, of "length content"] by simp
qed

lemma split_content_nth:
  assumes "split_content m content = Inr chunks" and "i < length chunks"
  shows "chunks ! i = slice content (i * m) (i * m + m)"
  using assms by (auto simp: split_content_def py_range_def split: if_splits)

lemma embed_chunks_text:
  "embed_chunks e i texts = Inr cs \<Longrightarrow> map chunk_text cs = texts"
  by (induction texts arbitrary: i cs) (auto split: sum.splits)

lemma embed_chunks_ids:
  "embed_chunks e i texts = Inr cs \<Longrightarrow> map chunk_id cs = map (\<lambda>j. str (j + 1)) [i..<i + length texts]"
proof (induction texts arbitrary: i cs)
  case Nil
  then show ?case by simp
next
  case (Cons t texts)
  then obtain v rest where v: "get_embedding e t = Inr v"
    and rest: "embed_chunks e (i + 1) texts = Inr rest"
    and cs: "cs = \<lparr>chunk_id = str (i + 1), chunk_text = t, embedding = v\<rparr> # rest"
    by (auto split: sum.splits)
  have "[i..<i + length (t # texts)] = i # [i + 1..<i + 1 + length texts]"
    by (simp add: upt_rec)
  with Cons.IH [OF rest] cs show ?case by simp
qed

lemma embed_chunks_total:
  "(\<forall>t \<in> set texts. \<not> isl (get_embedding e t)) \<Longrightarrow> \<not> isl (embed_chunks e i texts)"
proof (induction texts arbitrary: i)
  case Nil
  show ?case by simp
next
  case (Cons t texts)
  from Cons.prems obtain v where v: "get_embedding e t = Inr v"
    by (cases "get_embedding e t") auto
  from Cons.prems have "\<not> isl (embed_chunks e (i + 1) texts)"
    by (intro Cons.IH) simp
  then obtain rest where "embed_chunks e (i + 1) texts = Inr rest"
    by (cases "embed_chunks e (i + 1) texts") auto
  with v show ?case by simp
qed

lemma embed_chunks_fails:
  "\<exists>c \<in> set texts. isl (get_embedding e c) \<Longrightarrow> isl (embed_chunks e i texts)"
proof (induction texts arbitrary: i)
  case Nil
  then show ?case by simp
next
  case (Cons t texts)
  show ?case
  proof (cases "get_embedding e t")
    case (Inl err)
    then show ?thesis by simp
  next
    case (Inr v)
    with Cons.prems have "\<exists>c \<in> set texts. isl (get_embedding e c)" by auto
    then have "isl (embed_chunks e (i + 1) texts)" by (rule Cons.IH)
    with Inr show ?thesis by (auto split: sum.splits)
  qed
qed

text \<open>
  Claim C1. Chunking is a positional partition. Whenever the chunk list is produced,
  for any text and any maximum size, the chunk texts concatenated in order give back
  the input, no chunk text is longer than the maximum size, the chunk at position
  \<open>i\<close> (from 0) is the window \<open>content[i*max_size : i*max_size + max_size]\<close>, and
  an input no longer than the maximum size gives exactly one chunk, the whole input.
  The list is produced whenever the maximum size is positive and the embedding
  service answers.
\<close>

theorem chunking_is_positional_partition:
  "(embedded_chunks_of max_size e content = Inr cs \<longrightarrow>
      concat (map chunk_text cs) = content
      \<and> (\<forall>c \<in> set cs. length (chunk_text c) \<le> max_size)
      \<and> (\<forall>i < length cs. chunk_text (cs ! i) = slice content (i * max_size) (i * max_size + max_size))
      \<and> (length content \<le> max_size \<longrightarrow> map chunk_text cs = [content]))
   \<and> (0 < max_size \<and> (\<forall>t. \<not> isl (embed e t)) \<longrightarrow> \<not> isl (embedded_chunks_of max_size e content))"
proof (intro conjI impI)
  assume ok: "embedded_chunks_of max_size e content = Inr cs"
  show "concat (map chunk_text cs) = content"
  proof (cases "length content > max_size")
    case True
    with ok obtain chunks where s: "split_content max_size content = Inr chunks"
      and "embed_chunks e 0 chunks = Inr cs"
      by (auto simp: embedded_chunks_of_def split: sum.splits)
    then have "map chunk_text cs = chunks" by (simp add: embed_chunks_text)
    with split_content_concat [OF s] show ?thesis by simp
  next
    case False
    with ok show ?thesis by (auto simp: embedded_chunks_of_def split: sum.splits)
  qed
  show "\<forall>i < length cs. chunk_text (cs ! i) = slice content (i * max_size) (i * max_size + max_size)"
  proof (cases "length content > max_size")
    case True
    with ok obtain chunks where s: "split_content max_size content = Inr chunks"
      and "embed_chunks e 0 chunks = Inr cs"
      by (auto simp: embedded_chunks_of_def split: sum.splits)
    then have t: "map chunk_text cs = chunks" by (simp add: embed_chunks_text)
    show ?thesis
    proof (intro allI impI)
      fix i assume i: "i < length cs"
      with t have "i < length chunks" by auto
      from split_content_nth [OF s this] t i show "chunk_text (cs ! i) = slice content (i * max_size) (i * max_size + max_size)"
        by (metis nth_map)
    qed
  next
    case False
    with ok show ?thesis by (auto simp: embedded_chunks_of_def slice_def split: sum.splits)
  qed
  then show "\<forall>c \<in> set cs. length (chunk_text c) \<le> max_size"
    by (auto simp: in_set_conv_nth slice_def)
  show "map chunk_text cs = [content]" if "length content \<le> max_size"
    using ok that by (auto simp: embedded_chunks_of_def split: sum.splits)
next
  assume "0 < max_size \<and> (\<forall>t. \<not> isl (embed e t))"
  then have m: "0 < max_size" and tot: "\<And>t. \<not> isl (get_embedding e t)"
    by (auto simp: get_embedding_def)
  show "\<not> isl (embedded_chunks_of max_size e content)"
  proof (cases "length content > max_size")
    case True
    from m obtain chunks where s: "split_content max_size content = Inr chunks"
      by (simp add: split_content_def py_range_def)
    have "\<not> isl (embed_chunks e 0 chunks)"
      by (rule embed_chunks_total) (simp add: tot)
    with True s show ?thesis by (simp add: embedded_chunks_of_def)
  next
    case False
    from tot [of content] obtain v where "get_embedding e content = Inr v"
      by (cases "get_embedding e content") auto
    with False show ?thesis by (simp add: embedded_chunks_of_def)
  qed
qed

text \<open>The example of the specification: \<open>hello world\<close> cut at five characters.\<close>

theorem chunking_is_positional_partition_witness:
  "embedded_chunks_of 5 counting_env ''hello world'' =
     Inr [\<lparr>chunk_id = ''1'', chunk_text = ''hello'', embedding = [5]\<rparr>,
          \<lparr>chunk_id = ''2'', chunk_text = '' worl'', embedding = [5]\<rparr>,
          \<lparr>chunk_id = ''3'', chunk_text = ''d'', embedding = [1]\<rparr>]
   \<and> concat (map chunk_text [\<lparr>chunk_id = ''1'', chunk_text = ''hello'', embedding = [5]\<rparr>,
          \<lparr>chunk_id = ''2'', chunk_text = '' worl'', embedding = [5]\<rparr>,
          \<lparr>chunk_id = ''3'', chunk_text = ''d'', embedding = [1]\<rparr>]) = ''hello world''
   \<and> (0::nat) < 5 \<and> (\<forall>t. \<not> isl (embed counting_env t))
   \<and> \<not> isl (embedded_chunks_of 5 counting_env ''hello world'')"
proof -
  have run: "embedded_chunks_of 5 counting_env ''hello world'' =
     Inr [\<lparr>chunk_id = ''1'', chunk_text = ''hello'', embedding = [5]\<rparr>,
          \<lparr>chunk_id = ''2'', chunk_text = '' worl'', embedding = [5]\<rparr>,
          \<lparr>chunk_id = ''3'', chunk_text = ''d'', embedding = [1]\<rparr>]"
    by (simp add: embedded_chunks_of_def split_content_def py_range_def slice_def
        get_embedding_def counting_env_def str.simps upt_rec)
  have tot: "\<forall>t. \<not> isl (embed counting_env t)"
    by (simp add: counting_env_def)
  show ?thesis using run tot
    chunking_is_positional_partition [of 5 counting_env "''hello world''"
      "[\<lparr>chunk_id = ''1'', chunk_text = ''hello'', embedding = [5]\<rparr>,
          \<lparr>chunk_id = ''2'', chunk_text = '' worl'', embedding = [5]\<rparr>,
          \<lparr>chunk_id = ''3'', chunk_text = ''d'', embedding = [1]\<rparr>]"]
    by simp
qed

subsection \<open>Chunk ids\<close>

text \<open>
  Claim C7 says that the chunk at position \<open>i\<close> (from 1) always has the id \<open>str(i)\<close>,
  also in a run that produces one chunk. A corpus that fits in one chunk gets the id
  \<open>full\<close> instead (line 78), so the claim fails there.
\<close>

theorem single_chunk_id_counterexample:
  "embedded_chunks_of max_chunk_size counting_env ''hello'' =
     Inr [\<lparr>chunk_id = ''full'', chunk_text = ''hello'', embedding = [5]\<rparr>]
   \<and> ''full'' \<noteq> str 1"
  by (simp add: embedded_chunks_of_def max_chunk_size_def get_embedding_def counting_env_def str.simps)

text \<open>
  Claim C7, amended. When the corpus is longer than the maximum chunk size, the chunk
  at position \<open>i\<close> (from 1) has the id \<open>str(i)\<close>; when it is not, the single chunk
  has the id \<open>full\<close>.
\<close>

theorem chunk_ids_by_branch:
  assumes "embedded_chunks_of max_size e content = Inr cs"
  shows "(length content > max_size \<longrightarrow> (\<forall>i < length cs. chunk_id (cs ! i) = str (i + 1)))
       \<and> (length content \<le> max_size \<longrightarrow> map chunk_id cs = [''full''])"
proof (intro conjI impI allI)
  fix i
  assume long: "length content > max_size" and i: "i < length cs"
  from assms long obtain chunks where "embed_chunks e 0 chunks = Inr cs"
    by (auto simp: embedded_chunks_of_def split: sum.splits)
  then have ids: "map chunk_id cs = map (\<lambda>j. str (j + 1)) [0..<0 + length chunks]"
    by (rule embed_chunks_ids)
  then have len: "length cs = length chunks"
    by (metis add_0 length_map length_upt minus_nat.diff_0)
  have "chunk_id (cs ! i) = map chunk_id cs ! i"
    using i by simp
  also have "\<dots> = str (i + 1)"
    using i len by (simp add: ids)
  finally show "chunk_id (cs ! i) = str (i + 1)" .
next
  assume "length content \<le> max_size"
  with assms show "map chunk_id cs = [''full'']"
    by (auto simp: embedded_chunks_of_def split: sum.splits)
qed

theorem chunk_ids_by_branch_witness:
  "embedded_chunks_of 5 counting_env ''hello world'' =
     Inr [\<lparr>chunk_id = ''1'', chunk_text = ''hello'', embedding = [5]\<rparr>,
          \<lparr>chunk_id = ''2'', chunk_text = '' worl'', embedding = [5]\<rparr>,
          \<lparr>chunk_id = ''3'', chunk_text = ''d'', embedding = [1]\<rparr>]
   \<and> length ''hello world'' > (5::nat)
   \<and> chunk_id ([\<lparr>chunk_id = ''1'', chunk_text = ''hello'', embedding = [5]\<rparr>,
          \<lparr>chunk_id = ''2'', chunk_text = '' worl'', embedding = [5]\<rparr>,
          \<lparr>chunk_id = ''3'', chunk_text = ''d'', embedding = [1]\<rparr>] ! 2) = str (2 + 1)
   \<and> embedded_chunks_of 20 counting_env ''hello world'' =
     Inr [\<lparr>chunk_id = ''full'', chunk_text = ''hello world'', embedding = [11]\<rparr>]
   \<and> length ''hello world'' \<le> (20::nat)
   \<and> map chunk_id [\<lparr>chunk_id = ''full'', chunk_text = ''hello world'', embedding = [11]\<rparr>] = [''full'']"
proof -
  have long: "embedded_chunks_of 5 counting_env ''hello world'' =
     Inr [\<lparr>chunk_id = ''1'', chunk_text = ''hello'', embedding = [5]\<rparr>,
          \<lparr>chunk_id = ''2'', chunk_text = '' worl'', embedding = [5]\<rparr>,
          \<lparr>chunk_id = ''3'', chunk_text = ''d'', embedding = [1]\<rparr>]"
    by (simp add: embedded_chunks_of_def split_content_def py_range_def slice_def
        get_embedding_def counting_env_def str.simps upt_rec)
  have short: "embedded_chunks_of 20 counting_env ''hello world'' =
     Inr [\<lparr>chunk_id = ''full'', chunk_text = ''hello world'', embedding = [11]\<rparr>]"
    by (simp add: embedded_chunks_of_def get_embedding_def counting_env_def)
  define cs where "cs = [\<lparr>chunk_id = ''1'', chunk_text = ''hello'', embedding = [5]\<rparr>,
          \<lparr>chunk_id = ''2'', chunk_text = '' worl'', embedding = [5]\<rparr>,
          \<lparr>chunk_id = ''3'', chunk_text = ''d'', embedding = [1::real]\<rparr>]"
  have run: "embedded_chunks_of 5 counting_env ''hello world'' = Inr cs"
    using long by (simp only: cs_def)
  have gt: "length ''hello world'' > (5::nat)" by simp
  have lt: "2 < length cs" by (simp add: cs_def)
  have "chunk_id (cs ! 2) = str (2 + 1)"
    using chunk_ids_by_branch [OF run] gt lt by blast
  then have third: "chunk_id ([\<lparr>chunk_id = ''1'', chunk_text = ''hello'', embedding = [5]\<rparr>,
          \<lparr>chunk_id = ''2'', chunk_text = '' worl'', embedding = [5]\<rparr>,
          \<lparr>chunk_id = ''3'', chunk_text = ''d'', embedding = [1]\<rparr>] ! 2) = str (2 + 1)"
    by (simp only: cs_def)
  have le: "length ''hello world'' \<le> (20::nat)" by simp
  have full: "map chunk_id [\<lparr>chunk_id = ''full'', chunk_text = ''hello world'', embedding = [11]\<rparr>] = [''full'']"
    using chunk_ids_by_branch [OF short] le by blast
  show ?thesis
    using long gt third short le full by blast
qed

subsection \<open>The loop that prepares the results\<close>

lemma py_index_in_range:
  "0 \<le> i \<Longrightarrow> i < int (length xs) \<Longrightarrow> py_index xs i = Inr (xs ! nat i)"
  by (simp add: py_index_def)

lemma prepare_results_char:
  "i + length indices \<le> length distances \<Longrightarrow>
   prepare_results chunks distances i indices =
     Inr (map (\<lambda>(j, p). \<lparr>result_chunk_id = chunk_id (chunks ! nat p),
                           result_text = chunk_text (chunks ! nat p),
                           similarity = similarity_of (distances ! j)\<rparr>)
              (filter (\<lambda>(j, p). 0 \<le> p \<and> p < int (length chunks))
                      (zip [i..<i + length indices] indices)))"
proof (induction indices arbitrary: i)
  case Nil
  show ?case by simp
next
  case (Cons idx rest)
  have upt: "[i..<Suc (i + length rest)] = i # [Suc i..<Suc (i + length rest)]"
    by (rule upt_conv_Cons) simp
  from Cons.prems have "i + 1 + length rest \<le> length distances" by simp
  note IH = Cons.IH [OF this]
  from Cons.prems have d: "py_index distances (int i) = Inr (distances ! i)"
    by (simp add: py_index_def)
  show ?case
  proof (cases "idx < int (length chunks) \<and> idx \<ge> 0")
    case True
    then have "py_index chunks idx = Inr (chunks ! nat idx)"
      by (simp add: py_index_in_range)
    with True d IH show ?thesis
      by (simp add: upt del: upt_Suc)
  next
    case False
    with IH show ?thesis
      by (auto simp add: upt simp del: upt_Suc)
  qed
qed

text \<open>
  Claim C10. Search never reads the chunk list out of bounds. For any chunk list and
  any row of positions, also one that names positions the chunk list does not have
  or holds the padding \<open>-1\<close>, the loop does not fail: its results are built from
  exactly the positions \<open>idx\<close> with \<open>0 \<le> idx < len(embedded_chunks)\<close>, in order, and
  every other position is skipped. (The two rows have the same length, as the
  library returns them.)
\<close>

theorem results_come_from_valid_positions:
  assumes "length indices \<le> length distances"
  shows "prepare_results embedded_chunks distances 0 indices =
     Inr (map (\<lambda>(i, idx). \<lparr>result_chunk_id = chunk_id (embedded_chunks ! nat idx),
                             result_text = chunk_text (embedded_chunks ! nat idx),
                             similarity = similarity_of (distances ! i)\<rparr>)
              (filter (\<lambda>(i, idx). 0 \<le> idx \<and> idx < int (length embedded_chunks))
                      (zip [0..<length indices] indices)))"
  using prepare_results_char [of 0 indices distances embedded_chunks] assms by simp

text \<open>An index of three vectors against a chunk list of one entry, \<open>top_k = 4\<close>.\<close>

theorem results_come_from_valid_positions_witness:
  "length [2, 0, 1, - 1 :: int] \<le> length [1, 4, 4, FLT_MAX]
   \<and> prepare_results [\<lparr>chunk_id = ''full'', chunk_text = ''AAAA'', embedding = [4]\<rparr>]
        [1, 4, 4, FLT_MAX] 0 [2, 0, 1, - 1] =
     Inr [\<lparr>result_chunk_id = ''full'', result_text = ''AAAA'', similarity = 1 / 5\<rparr>]"
  using results_come_from_valid_positions
    [of "[2, 0, 1, - 1]" "[1, 4, 4, FLT_MAX]"
        "[\<lparr>chunk_id = ''full'', chunk_text = ''AAAA'', embedding = [4]\<rparr>]"]
  by (simp add: upt_rec similarity_of_def)

subsection \<open>The index and the search\<close>

lemma l2_distance_nonneg: "0 \<le> l2_distance x y"
  unfolding l2_distance_def by (rule sum_list_nonneg) auto

lemma length_nearest: "length (nearest index q k) = min k (ntotal index)"
  by (simp add: nearest_def ntotal_def min.commute)

lemma sorted_nearest: "sorted (map fst (nearest index q k))"
proof -
  have "sorted (map fst (sort_key fst
       (map (\<lambda>(i, v). (l2_distance q v, int i)) (zip [0..<length (vectors index)] (vectors index)))))"
    by (rule sorted_sort_key)
  then have "sorted (take k (map fst (sort_key fst
       (map (\<lambda>(i, v). (l2_distance q v, int i)) (zip [0..<length (vectors index)] (vectors index))))))"
    by (rule sorted_wrt_take)
  then show ?thesis by (simp add: nearest_def take_map)
qed

lemma nearest_in_range:
  assumes "(dst, p) \<in> set (nearest index q k)"
  shows "0 \<le> dst \<and> 0 \<le> p \<and> p < int (ntotal index)"
proof -
  from assms have "(dst, p) \<in> set (map (\<lambda>(i, v). (l2_distance q v, int i))
      (zip [0..<length (vectors index)] (vectors index)))"
    unfolding nearest_def by (auto dest: in_set_takeD)
  then obtain i v where "(i, v) \<in> set (zip [0..<length (vectors index)] (vectors index))"
    and dp: "dst = l2_distance q v" "p = int i"
    by auto
  then have "i < length (vectors index)"
    by (auto dest: set_zip_leftD)
  with dp show ?thesis by (simp add: l2_distance_nonneg ntotal_def)
qed

lemma index_search_rows:
  assumes "length q = index_d index"
  shows "index_search index q k =
     Inr (map fst (nearest index q k) @ replicate (k - length (nearest index q k)) FLT_MAX,
          map snd (nearest index q k) @ replicate (k - length (nearest index q k)) (- 1))"
  using assms by (simp add: index_search_def Let_def)

lemma zip_upt_map:
  "length ps = n \<Longrightarrow> length ds = n \<Longrightarrow>
   map (\<lambda>(j, p). g ((ds @ es) ! j) p) (zip [0..<n] ps) = map (\<lambda>(dst, p). g dst p) (zip ds ps)"
  by (rule nth_equalityI) (auto simp: nth_append)

lemma results_of_rows:
  assumes valid: "\<forall>(dst, p) \<in> set best. 0 \<le> p \<and> p < int (length chunks)"
    and len: "length best \<le> k"
  shows "prepare_results chunks (map fst best @ replicate (k - length best) pad) 0
           (map snd best @ replicate (k - length best) (- 1)) =
         Inr (map (\<lambda>(dst, p). \<lparr>result_chunk_id = chunk_id (chunks ! nat p),
                                  result_text = chunk_text (chunks ! nat p),
                                  similarity = similarity_of dst\<rparr>) best)"
proof -
  let ?ds = "map fst best @ replicate (k - length best) pad"
  let ?ps = "map snd best @ replicate (k - length best) (- 1)"
  let ?ok = "\<lambda>(j :: nat, p). 0 \<le> p \<and> p < int (length chunks)"
  let ?n = "length best"
  have split: "[0..<0 + length ?ps] = [0..<?n] @ [?n..<k]"
  proof -
    have "[0..<?n + (k - ?n)] = [0..<?n] @ [?n..<?n + (k - ?n)]"
      by (rule upt_add_eq_append) simp
    with len show ?thesis by simp
  qed
  have z: "zip [0..<0 + length ?ps] ?ps =
      zip [0..<?n] (map snd best) @ zip [?n..<k] (replicate (k - ?n) (- 1))"
    unfolding split by simp
  have keep: "filter ?ok (zip [0..<?n] (map snd best)) = zip [0..<?n] (map snd best)"
  proof (rule filter_True, clarify)
    fix j p assume "(j, p) \<in> set (zip [0..<?n] (map snd best))"
    then have "p \<in> snd ` set best" by (auto dest: set_zip_rightD)
    with valid show "0 \<le> p \<and> p < int (length chunks)" by auto
  qed
  have skip: "filter ?ok (zip [?n..<k] (replicate (k - ?n) (- 1))) = []"
    by (rule filter_False) (auto dest: set_zip_rightD)
  have "prepare_results chunks ?ds 0 ?ps =
      Inr (map (\<lambda>(j, p). \<lparr>result_chunk_id = chunk_id (chunks ! nat p),
                           result_text = chunk_text (chunks ! nat p),
                           similarity = similarity_of (?ds ! j)\<rparr>)
              (filter ?ok (zip [0..<0 + length ?ps] ?ps)))"
    by (rule prepare_results_char) simp
  also have "filter ?ok (zip [0..<0 + length ?ps] ?ps) = zip [0..<?n] (map snd best)"
    unfolding z by (simp only: filter_append keep skip append_Nil2)
  also have "map (\<lambda>(j, p). \<lparr>result_chunk_id = chunk_id (chunks ! nat p),
                           result_text = chunk_text (chunks ! nat p),
                           similarity = similarity_of (?ds ! j)\<rparr>) (zip [0..<?n] (map snd best))
      = map (\<lambda>(dst, p). \<lparr>result_chunk_id = chunk_id (chunks ! nat p),
                           result_text = chunk_text (chunks ! nat p),
                           similarity = similarity_of dst\<rparr>) (zip (map fst best) (map snd best))"
    by (rule zip_upt_map [where g = "\<lambda>dst p. \<lparr>result_chunk_id = chunk_id (chunks ! nat p),
                           result_text = chunk_text (chunks ! nat p),
                           similarity = similarity_of dst\<rparr>"]) simp_all
  finally show ?thesis by (simp add: zip_map_fst_snd)
qed

lemma search_with_enough_chunks:
  assumes "content_index fs = Stored index" and "embedded_chunks_pkl fs = Stored chunks"
    and "get_embedding e query = Inr qv" and "length qv = index_d index"
    and "ntotal index \<le> length chunks"
  shows "search_similar_chunks_try e fs query k =
     Inr (map (\<lambda>(dst, p). \<lparr>result_chunk_id = chunk_id (chunks ! nat p),
                              result_text = chunk_text (chunks ! nat p),
                              similarity = similarity_of dst\<rparr>) (nearest index qv k))"
proof -
  have valid: "\<forall>(dst, p) \<in> set (nearest index qv k). 0 \<le> p \<and> p < int (length chunks)"
    using nearest_in_range [of _ _ index qv k] assms(5) by fastforce
  have len: "length (nearest index qv k) \<le> k"
    by (simp add: length_nearest)
  have "search_similar_chunks_try e fs query k =
      prepare_results chunks
        (map fst (nearest index qv k) @ replicate (k - length (nearest index qv k)) FLT_MAX) 0
        (map snd (nearest index qv k) @ replicate (k - length (nearest index qv k)) (- 1))"
    using assms(1-4)
    by (simp add: search_similar_chunks_try_def load_faiss_index_def read_file_def index_search_rows)
  then show ?thesis
    by (simp only: results_of_rows [OF valid len])
qed

lemma similarity_of_antimono:
  "0 \<le> a \<Longrightarrow> a \<le> b \<Longrightarrow> similarity_of b \<le> similarity_of a"
  by (simp add: similarity_of_def frac_le)

lemma similarities_descend:
  "sorted (rev (map (\<lambda>(dst, p). similarity_of dst) (nearest index qv k)))"
proof -
  have "sorted_wrt (\<lambda>x y. fst x \<le> fst y) (nearest index qv k)"
    using sorted_nearest [of index qv k] by (simp add: sorted_wrt_map)
  then have "sorted_wrt (\<lambda>x y. similarity_of (fst y) \<le> similarity_of (fst x)) (nearest index qv k)"
  proof (rule sorted_wrt_mono_rel [rotated])
    fix x y
    assume "x \<in> set (nearest index qv k)" and "fst x \<le> fst y"
    moreover from this have "0 \<le> fst x"
      using nearest_in_range [of "fst x" "snd x" index qv k] by simp
    ultimately show "similarity_of (fst y) \<le> similarity_of (fst x)"
      by (simp add: similarity_of_antimono)
  qed
  then show ?thesis
    by (simp add: sorted_wrt_rev sorted_wrt_map case_prod_unfold)
qed

lemma store_in_faiss_result:
  assumes "store_in_faiss cs = Inr (index, chunks)"
  shows "chunks = cs \<and> vectors index = map embedding cs"
  using assms
  by (auto simp: store_in_faiss_def Let_def index_add_def IndexFlatL2_def np_array_def
      split: sum.splits if_splits list.splits)

text \<open>
  Claim C2. For an index built by \<open>store_in_faiss\<close> from a chunk list and stored
  with it, a query whose embedding has the index's dimension, and any \<open>top_k\<close>:
  the result list is built from the \<open>nearest\<close> entries in their order, it has
  \<open>min(top_k, ntotal)\<close> entries, the distances are in non-decreasing order and the
  similarities in non-increasing order.
\<close>

theorem search_length_and_order:
  assumes "store_in_faiss embedded_chunks = Inr (index, chunks)"
    and "content_index fs = Stored index" and "embedded_chunks_pkl fs = Stored chunks"
    and "get_embedding e query = Inr qv" and "length qv = index_d index"
  shows "search_similar_chunks e fs query k =
           map (\<lambda>(dst, p). \<lparr>result_chunk_id = chunk_id (chunks ! nat p),
                              result_text = chunk_text (chunks ! nat p),
                              similarity = similarity_of dst\<rparr>) (nearest index qv k)
       \<and> length (search_similar_chunks e fs query k) = min k (ntotal index)
       \<and> sorted (map fst (nearest index qv k))
       \<and> sorted (rev (map similarity (search_similar_chunks e fs query k)))"
proof -
  from store_in_faiss_result [OF assms(1)] have "ntotal index \<le> length chunks"
    by (simp add: ntotal_def)
  from search_with_enough_chunks [OF assms(2-5) this]
  have res: "search_similar_chunks e fs query k =
           map (\<lambda>(dst, p). \<lparr>result_chunk_id = chunk_id (chunks ! nat p),
                              result_text = chunk_text (chunks ! nat p),
                              similarity = similarity_of dst\<rparr>) (nearest index qv k)"
    by (simp add: search_similar_chunks_def)
  have sims: "map similarity (search_similar_chunks e fs query k) =
      map (\<lambda>(dst, p). similarity_of dst) (nearest index qv k)"
    unfolding res by (simp add: case_prod_unfold comp_def)
  have "length (search_similar_chunks e fs query k) = min k (ntotal index)"
    unfolding res by (simp add: length_nearest)
  moreover have "sorted (rev (map similarity (search_similar_chunks e fs query k)))"
    unfolding sims by (rule similarities_descend)
  ultimately show ?thesis
    using res sorted_nearest [of index qv k] by simp
qed

lemma sample_nearest: "nearest sample_index [2] 2 = [(1, 2), (4, 0)]"
  by (simp add: nearest_def sample_index_def l2_distance_def upt_rec)

theorem search_length_and_order_witness:
  "store_in_faiss sample_chunks = Inr (sample_index, sample_chunks)
   \<and> content_index sample_fs = Stored sample_index
   \<and> embedded_chunks_pkl sample_fs = Stored sample_chunks
   \<and> get_embedding counting_env ''xx'' = Inr [2]
   \<and> length [2 :: real] = index_d sample_index
   \<and> search_similar_chunks counting_env sample_fs ''xx'' 2 =
       [\<lparr>result_chunk_id = ''3'', result_text = ''B'', similarity = 1 / 2\<rparr>,
        \<lparr>result_chunk_id = ''1'', result_text = ''AAAA'', similarity = 1 / 5\<rparr>]
   \<and> length (search_similar_chunks counting_env sample_fs ''xx'' 2) = min 2 (ntotal sample_index)
   \<and> sorted (rev (map similarity (search_similar_chunks counting_env sample_fs ''xx'' 2)))"
proof -
  have built: "store_in_faiss sample_chunks = Inr (sample_index, sample_chunks)"
    by (simp add: store_in_faiss_def sample_chunks_def sample_index_def py_index_def
        IndexFlatL2_def np_array_def index_add_def)
  have idx: "content_index sample_fs = Stored sample_index"
    and pkl: "embedded_chunks_pkl sample_fs = Stored sample_chunks"
    by (simp_all add: sample_fs_def)
  have q: "get_embedding counting_env ''xx'' = Inr [2]"
    by (simp add: get_embedding_def counting_env_def)
  have dim: "length [2 :: real] = index_d sample_index"
    by (simp add: sample_index_def)
  note t = search_length_and_order [OF built idx pkl q dim, of 2]
  have r: "search_similar_chunks counting_env sample_fs ''xx'' 2 =
       [\<lparr>result_chunk_id = ''3'', result_text = ''B'', similarity = 1 / 2\<rparr>,
        \<lparr>result_chunk_id = ''1'', result_text = ''AAAA'', similarity = 1 / 5\<rparr>]"
    using t by (simp add: sample_nearest sample_chunks_def similarity_of_def)
  have l: "length (search_similar_chunks counting_env sample_fs ''xx'' 2) = min 2 (ntotal sample_index)"
    using t by blast
  have s: "sorted (rev (map similarity (search_similar_chunks counting_env sample_fs ''xx'' 2)))"
    using t by blast
  show ?thesis
    using built idx pkl q dim r l s by blast
qed

subsection \<open>Failures at query time\<close>

text \<open>
  Claim C5. When the index file or the chunk file is missing or cannot be loaded, or
  the embedding of the query fails, \<open>search_similar_chunks\<close> returns the empty list.
\<close>

theorem failed_search_returns_empty_list:
  assumes "isl (read_file (content_index fs)) \<or> isl (read_file (embedded_chunks_pkl fs))
           \<or> isl (get_embedding e query)"
  shows "search_similar_chunks e fs query top_k = []"
  using assms
  by (auto simp: search_similar_chunks_def search_similar_chunks_try_def load_faiss_index_def
      split: sum.splits option.splits prod.splits)

theorem failed_search_returns_empty_list_witness:
  "isl (read_file (content_index (fresh_fs ''abc'')))
   \<and> search_similar_chunks counting_env (fresh_fs ''abc'') ''query'' 3 = []
   \<and> isl (read_file (embedded_chunks_pkl (sample_fs\<lparr>embedded_chunks_pkl := Corrupt\<rparr>)))
   \<and> search_similar_chunks counting_env (sample_fs\<lparr>embedded_chunks_pkl := Corrupt\<rparr>) ''query'' 3 = []
   \<and> isl (get_embedding flaky_env ''q?'')
   \<and> search_similar_chunks flaky_env sample_fs ''q?'' 3 = []"
proof -
  have a: "isl (read_file (content_index (fresh_fs ''abc'')))"
    by (simp add: fresh_fs_def read_file_def)
  have b: "isl (read_file (embedded_chunks_pkl (sample_fs\<lparr>embedded_chunks_pkl := Corrupt\<rparr>)))"
    by (simp add: read_file_def)
  have c: "isl (get_embedding flaky_env ''q?'')"
    by (simp add: get_embedding_def flaky_env_def)
  show ?thesis
    using a b c
      failed_search_returns_empty_list [of "fresh_fs ''abc''" counting_env "''query''" 3]
      failed_search_returns_empty_list [of "sample_fs\<lparr>embedded_chunks_pkl := Corrupt\<rparr>" counting_env "''query''" 3]
      failed_search_returns_empty_list [of sample_fs flaky_env "''q?''" 3]
    by blast
qed

subsection \<open>Loading the artifacts\<close>

text \<open>
  Claim C6 says that loading fails with ArtifactNotFoundError when a file is missing
  and with ArtifactCorruptError when deserialization fails or the chunk list and the
  index differ in length. \<open>load_faiss_index\<close> has no typed errors and does not
  compare the lengths: where the specification's load reports a corrupt artifact,
  the code returns the pair; where it reports a missing one, the code returns
  \<open>(None, None)\<close>.
\<close>

theorem load_accepts_count_mismatch_counterexample:
  "spec_load mismatched_fs = Inl ArtifactCorruptError
   \<and> load_faiss_index mismatched_fs =
       (Some sample_index, Some [\<lparr>chunk_id = ''full'', chunk_text = ''AAAA'', embedding = [4]\<rparr>])
   \<and> spec_load (fresh_fs ''abc'') = Inl ArtifactNotFoundError
   \<and> load_faiss_index (fresh_fs ''abc'') = (None, None)"
  by (simp add: spec_load_def load_faiss_index_def mismatched_fs_def fresh_fs_def read_file_def
      ntotal_def sample_index_def)

text \<open>
  Claim C6, amended. \<open>load_faiss_index\<close> returns \<open>(None, None)\<close> when either file is
  missing or cannot be deserialized, without telling the two apart, and otherwise
  returns the loaded index and chunk list, whether or not their lengths agree.
\<close>

theorem load_returns_pair_or_none:
  "(content_index fs = Absent \<or> content_index fs = Corrupt
      \<or> embedded_chunks_pkl fs = Absent \<or> embedded_chunks_pkl fs = Corrupt
      \<longrightarrow> load_faiss_index fs = (None, None))
   \<and> (content_index fs = Stored index \<and> embedded_chunks_pkl fs = Stored chunks
      \<longrightarrow> load_faiss_index fs = (Some index, Some chunks))"
  by (auto simp: load_faiss_index_def read_file_def split: disk_file.splits)

theorem load_returns_pair_or_none_witness:
  "content_index (fresh_fs ''abc'') = Absent
   \<and> load_faiss_index (fresh_fs ''abc'') = (None, None)
   \<and> content_index mismatched_fs = Stored sample_index
   \<and> embedded_chunks_pkl mismatched_fs = Stored [\<lparr>chunk_id = ''full'', chunk_text = ''AAAA'', embedding = [4]\<rparr>]
   \<and> load_faiss_index mismatched_fs =
       (Some sample_index, Some [\<lparr>chunk_id = ''full'', chunk_text = ''AAAA'', embedding = [4]\<rparr>])"
proof -
  have a: "content_index (fresh_fs ''abc'') = Absent" by (simp add: fresh_fs_def)
  have b: "content_index mismatched_fs = Stored sample_index"
    and c: "embedded_chunks_pkl mismatched_fs = Stored [\<lparr>chunk_id = ''full'', chunk_text = ''AAAA'', embedding = [4]\<rparr>]"
    by (simp_all add: mismatched_fs_def)
  show ?thesis
    using a b c load_returns_pair_or_none [of "fresh_fs ''abc''"]
      load_returns_pair_or_none [of mismatched_fs sample_index
        "[\<lparr>chunk_id = ''full'', chunk_text = ''AAAA'', embedding = [4]\<rparr>]"]
    by blast
qed

subsection \<open>Ingestion\<close>

text \<open>
  Claim C4 says that an empty corpus aborts the run with no artifact written. The
  code has no check for an empty corpus: it sends the empty text to the embedding
  service as a single chunk, and when the service answers, both files are written.
\<close>

theorem empty_corpus_is_ingested_counterexample:
  "process_content_file counting_env (fresh_fs []) =
     (True, \<lparr>content_txt = Stored [],
             content_index = Stored \<lparr>index_d = 1, vectors = [[0]]\<rparr>,
             embedded_chunks_pkl = Stored [\<lparr>chunk_id = ''full'', chunk_text = [], embedding = [0]\<rparr>]\<rparr>)"
  by (simp add: process_content_file_def process_content_file_sized_def fresh_fs_def read_file_def
      embedded_chunks_of_def max_chunk_size_def get_embedding_def counting_env_def
      store_in_faiss_def py_index_def IndexFlatL2_def np_array_def index_add_def
      save_artifacts_def write_file_def)

lemma save_artifacts_after_build:
  assumes run: "process_content_file_sized max_size e fs = (ok, fs')" and changed: "fs' \<noteq> fs"
  shows "\<exists>content cs index. content_txt fs = Stored content
      \<and> embedded_chunks_of max_size e content = Inr cs
      \<and> store_in_faiss cs = Inr (index, cs)"
proof (cases "read_file (content_txt fs)")
  case (Inl err)
  with run changed show ?thesis by (simp add: process_content_file_sized_def)
next
  case (Inr content)
  then have c: "content_txt fs = Stored content"
    by (simp add: read_file_def split: disk_file.splits)
  show ?thesis
  proof (cases "embedded_chunks_of max_size e content")
    case (Inl err)
    with run changed Inr show ?thesis by (simp add: process_content_file_sized_def)
  next
    case cs: (Inr cs)
    show ?thesis
    proof (cases "store_in_faiss cs")
      case (Inl err)
      with run changed Inr cs show ?thesis by (simp add: process_content_file_sized_def)
    next
      case built: (Inr pair)
      obtain index u where pair: "pair = (index, u)" by (cases pair)
      with built store_in_faiss_result [of cs index u] have "store_in_faiss cs = Inr (index, cs)"
        by simp
      with c cs show ?thesis by blast
    qed
  qed
qed

text \<open>
  Claim C4, amended. If an embedding call fails (for the whole corpus when it fits in
  one chunk, for any of its windows otherwise), the run returns \<open>False\<close> and leaves
  all files as they were; and a run that changes any file has embedded every chunk
  and built the index before. An empty corpus is not rejected by the pipeline
  itself: it is embedded as one chunk with the id \<open>full\<close> and the empty text, and
  when that call and the two writes succeed, the run returns \<open>True\<close> with both
  files written. The statement is for any maximum chunk size; the source runs with
  10000.
\<close>

theorem failed_embedding_writes_nothing:
  "(content_txt fs = Stored content \<and> length content \<le> max_size \<and> isl (get_embedding e content)
      \<longrightarrow> process_content_file_sized max_size e fs = (False, fs))
   \<and> (content_txt fs = Stored content \<and> length content > max_size
        \<and> split_content max_size content = Inr chunks \<and> (\<exists>c \<in> set chunks. isl (get_embedding e c))
      \<longrightarrow> process_content_file_sized max_size e fs = (False, fs))
   \<and> (process_content_file_sized max_size e fs = (ok, fs') \<and> fs' \<noteq> fs
      \<longrightarrow> (\<exists>content cs index. content_txt fs = Stored content
             \<and> embedded_chunks_of max_size e content = Inr cs
             \<and> store_in_faiss cs = Inr (index, cs)))
   \<and> (content_txt fs = Stored [] \<and> get_embedding e [] = Inr v
        \<and> index_write e = Written \<and> pickle_write e = Written
      \<longrightarrow> process_content_file_sized max_size e fs =
            (True, fs\<lparr>content_index := Stored \<lparr>index_d = length v, vectors = [v]\<rparr>,
                       embedded_chunks_pkl :=
                         Stored [\<lparr>chunk_id = ''full'', chunk_text = [], embedding = v\<rparr>]\<rparr>))
   \<and> process_content_file e fs = process_content_file_sized 10000 e fs"
proof (intro conjI impI)
  assume "content_txt fs = Stored content \<and> length content \<le> max_size \<and> isl (get_embedding e content)"
  then show "process_content_file_sized max_size e fs = (False, fs)"
    by (auto simp: process_content_file_sized_def read_file_def embedded_chunks_of_def
        split: sum.splits)
next
  assume a: "content_txt fs = Stored content \<and> length content > max_size
        \<and> split_content max_size content = Inr chunks \<and> (\<exists>c \<in> set chunks. isl (get_embedding e c))"
  then have "isl (embed_chunks e 0 chunks)" by (intro embed_chunks_fails) simp
  then obtain err where "embed_chunks e 0 chunks = Inl err"
    by (cases "embed_chunks e 0 chunks") auto
  with a show "process_content_file_sized max_size e fs = (False, fs)"
    by (simp add: process_content_file_sized_def read_file_def embedded_chunks_of_def)
next
  assume "process_content_file_sized max_size e fs = (ok, fs') \<and> fs' \<noteq> fs"
  then show "\<exists>content cs index. content_txt fs = Stored content
             \<and> embedded_chunks_of max_size e content = Inr cs
             \<and> store_in_faiss cs = Inr (index, cs)"
    using save_artifacts_after_build by blast
next
  assume "content_txt fs = Stored [] \<and> get_embedding e [] = Inr v
        \<and> index_write e = Written \<and> pickle_write e = Written"
  then show "process_content_file_sized max_size e fs =
            (True, fs\<lparr>content_index := Stored \<lparr>index_d = length v, vectors = [v]\<rparr>,
                       embedded_chunks_pkl :=
                         Stored [\<lparr>chunk_id = ''full'', chunk_text = [], embedding = v\<rparr>]\<rparr>)"
    by (simp add: process_content_file_sized_def read_file_def embedded_chunks_of_def
        store_in_faiss_def py_index_def IndexFlatL2_def np_array_def index_add_def
        save_artifacts_def write_file_def)
next
  show "process_content_file e fs = process_content_file_sized 10000 e fs"
    by (simp add: process_content_file_def max_chunk_size_def)
qed

theorem failed_embedding_writes_nothing_witness:
  "content_txt sample_fs = Stored ''AAAA BBBB'' \<and> length ''AAAA BBBB'' > (4 :: nat)
   \<and> split_content 4 ''AAAA BBBB'' = Inr [''AAAA'', '' BBB'', ''B'']
   \<and> isl (get_embedding flaky_env ''B'')
   \<and> process_content_file_sized 4 flaky_env sample_fs = (False, sample_fs)
   \<and> content_txt (fresh_fs []) = Stored [] \<and> length ([] :: string) \<le> (4 :: nat)
   \<and> isl (get_embedding flaky_env [])
   \<and> process_content_file_sized 4 flaky_env (fresh_fs []) = (False, fresh_fs [])
   \<and> get_embedding counting_env [] = Inr [0]
   \<and> index_write counting_env = Written \<and> pickle_write counting_env = Written
   \<and> process_content_file_sized 4 counting_env (fresh_fs []) =
        (True, \<lparr>content_txt = Stored [],
                content_index = Stored \<lparr>index_d = 1, vectors = [[0]]\<rparr>,
                embedded_chunks_pkl =
                  Stored [\<lparr>chunk_id = ''full'', chunk_text = [], embedding = [0]\<rparr>]\<rparr>)
   \<and> process_content_file_sized 4 counting_env (fresh_fs ''AAAA BBBB'') = (True, sample_fs)
   \<and> sample_fs \<noteq> fresh_fs ''AAAA BBBB''
   \<and> embedded_chunks_of 4 counting_env ''AAAA BBBB'' = Inr sample_chunks
   \<and> store_in_faiss sample_chunks = Inr (sample_index, sample_chunks)"
proof -
  have c: "content_txt sample_fs = Stored ''AAAA BBBB''"
    by (simp add: sample_fs_def)
  have l: "length ''AAAA BBBB'' > (4 :: nat)" by simp
  have s: "split_content 4 ''AAAA BBBB'' = Inr [''AAAA'', '' BBB'', ''B'']"
    by (simp add: split_content_def py_range_def slice_def upt_rec)
  have f: "isl (get_embedding flaky_env ''B'')"
    by (simp add: get_embedding_def flaky_env_def)
  then have ex: "\<exists>c \<in> set [''AAAA'', '' BBB'', ''B'']. isl (get_embedding flaky_env c)"
    by simp
  have r1: "process_content_file_sized 4 flaky_env sample_fs = (False, sample_fs)"
    using failed_embedding_writes_nothing
      [where fs = sample_fs and content = "''AAAA BBBB''" and max_size = 4 and e = flaky_env
         and chunks = "[''AAAA'', '' BBB'', ''B'']"] c l s ex
    by blast
  have c2: "content_txt (fresh_fs []) = Stored []" by (simp add: fresh_fs_def)
  have l2: "length ([] :: string) \<le> (4 :: nat)" by simp
  have f2: "isl (get_embedding flaky_env [])"
    by (simp add: get_embedding_def flaky_env_def)
  have r2: "process_content_file_sized 4 flaky_env (fresh_fs []) = (False, fresh_fs [])"
    using failed_embedding_writes_nothing
      [where fs = "fresh_fs []" and content = "[]" and max_size = 4 and e = flaky_env] c2 l2 f2
    by blast
  have g: "get_embedding counting_env [] = Inr [0]"
    by (simp add: get_embedding_def counting_env_def)
  have w: "index_write counting_env = Written" "pickle_write counting_env = Written"
    by (simp_all add: counting_env_def)
  have "process_content_file_sized 4 counting_env (fresh_fs []) =
      (True, (fresh_fs [])\<lparr>content_index := Stored \<lparr>index_d = length [0 :: real], vectors = [[0]]\<rparr>,
                 embedded_chunks_pkl :=
                   Stored [\<lparr>chunk_id = ''full'', chunk_text = [], embedding = [0]\<rparr>]\<rparr>)"
    using failed_embedding_writes_nothing
      [where fs = "fresh_fs []" and max_size = 4 and e = counting_env and v = "[0]"] c2 g w
    by blast
  then have r4: "process_content_file_sized 4 counting_env (fresh_fs []) =
        (True, \<lparr>content_txt = Stored [],
                content_index = Stored \<lparr>index_d = 1, vectors = [[0]]\<rparr>,
                embedded_chunks_pkl =
                  Stored [\<lparr>chunk_id = ''full'', chunk_text = [], embedding = [0]\<rparr>]\<rparr>)"
    by (simp add: fresh_fs_def)
  have e3: "embedded_chunks_of 4 counting_env ''AAAA BBBB'' = Inr sample_chunks"
    by (simp add: embedded_chunks_of_def split_content_def py_range_def slice_def
        get_embedding_def counting_env_def str.simps upt_rec sample_chunks_def)
  have b3: "store_in_faiss sample_chunks = Inr (sample_index, sample_chunks)"
    by (simp add: store_in_faiss_def sample_chunks_def sample_index_def py_index_def
        IndexFlatL2_def np_array_def index_add_def)
  have r3: "process_content_file_sized 4 counting_env (fresh_fs ''AAAA BBBB'') = (True, sample_fs)"
    by (simp add: process_content_file_sized_def fresh_fs_def read_file_def e3 b3
        save_artifacts_def write_file_def w sample_fs_def)
  have n3: "sample_fs \<noteq> fresh_fs ''AAAA BBBB''"
    by (simp add: sample_fs_def fresh_fs_def)
  show ?thesis
    using c l s f r1 c2 l2 f2 r2 g w r4 r3 n3 e3 b3 by blast
qed

subsection \<open>Answering a question\<close>

lemma get_embedding_ignores_generate:
  "get_embedding (e\<lparr>generate := g\<rparr>) txt = get_embedding e txt"
  by (simp add: get_embedding_def)

lemma search_ignores_generate:
  "search_similar_chunks (e\<lparr>generate := g\<rparr>) fs query k = search_similar_chunks e fs query k"
  by (auto simp: search_similar_chunks_def search_similar_chunks_try_def get_embedding_ignores_generate
      split: prod.splits option.splits sum.splits)

text \<open>
  Claim C9. \<open>answer_question\<close> searches with \<open>top_k = 5\<close>. When that search returns
  the empty list, the text of line 219 is the normal return value of the \<open>try\<close>
  block, and the result does not depend on the generation service, which is not
  called; otherwise the prompt is built from the results of that same search.
\<close>

theorem no_results_gives_fixed_message:
  "(search_similar_chunks e fs query 5 = [] \<longrightarrow>
      answer_question_try e fs query =
        Inr ''I couldn't find any relevant information in the codebase to answer your question.''
      \<and> answer_question e fs query =
        ''I couldn't find any relevant information in the codebase to answer your question.''
      \<and> (\<forall>g. answer_question (e\<lparr>generate := g\<rparr>) fs query =
        ''I couldn't find any relevant information in the codebase to answer your question.''))
   \<and> (search_similar_chunks e fs query 5 \<noteq> [] \<longrightarrow>
      answer_question_try e fs query =
        generate e (prompt_of (join (nl @ nl @ ''---'' @ nl @ nl)
                                    (map result_text (search_similar_chunks e fs query 5))) query))"
  by (simp add: answer_question_def answer_question_try_def Let_def search_ignores_generate)

theorem no_results_gives_fixed_message_witness:
  "search_similar_chunks flaky_env (fresh_fs ''abc'') ''why?'' 5 = []
   \<and> answer_question_try flaky_env (fresh_fs ''abc'') ''why?'' =
        Inr ''I couldn't find any relevant information in the codebase to answer your question.''
   \<and> answer_question flaky_env (fresh_fs ''abc'') ''why?'' =
        ''I couldn't find any relevant information in the codebase to answer your question.''
   \<and> search_similar_chunks counting_env sample_fs ''xx'' 5 \<noteq> []
   \<and> answer_question counting_env sample_fs ''xx'' = ''ok''"
proof -
  have a: "search_similar_chunks flaky_env (fresh_fs ''abc'') ''why?'' 5 = []"
    by (simp add: search_similar_chunks_def search_similar_chunks_try_def load_faiss_index_def
        fresh_fs_def read_file_def)
  have "search_similar_chunks_try counting_env sample_fs ''xx'' 5 =
      Inr (map (\<lambda>(dst, p). \<lparr>result_chunk_id = chunk_id (sample_chunks ! nat p),
                              result_text = chunk_text (sample_chunks ! nat p),
                              similarity = similarity_of dst\<rparr>) (nearest sample_index [2] 5))"
    by (rule search_with_enough_chunks)
      (simp_all add: sample_fs_def get_embedding_def counting_env_def sample_index_def
        ntotal_def sample_chunks_def)
  moreover have "nearest sample_index [2] 5 = [(1, 2), (4, 0), (4, 1)]"
    by (simp add: nearest_def sample_index_def l2_distance_def upt_rec)
  ultimately have b: "search_similar_chunks counting_env sample_fs ''xx'' 5 \<noteq> []"
    by (simp add: search_similar_chunks_def)
  have g: "generate counting_env p = Inr ''ok''" for p
    by (simp add: counting_env_def)
  from b no_results_gives_fixed_message [of counting_env sample_fs "''xx''"]
  have c: "answer_question counting_env sample_fs ''xx'' = ''ok''"
    by (simp add: answer_question_def g)
  show ?thesis
    using a b c no_results_gives_fixed_message [of flaky_env "fresh_fs ''abc''" "''why?''"]
    by blast
qed

subsection \<open>The interactive session\<close>

lemma isspace_lower_char: "isspace c \<Longrightarrow> lower_char c = c"
  by (auto simp: isspace_def lower_char_def Let_def)

lemma quit_letters_not_space:
  "lower_char c \<in> set ''quitex'' \<Longrightarrow> \<not> isspace c"
proof
  assume l: "lower_char c \<in> set ''quitex''" and s: "isspace c"
  from s have "lower_char c = c" by (rule isspace_lower_char)
  with l have "c \<in> set ''quitex''" by simp
  with s show False by (auto simp: isspace_def)
qed

lemma strip_without_spaces:
  assumes "\<forall>c \<in> set s. \<not> isspace c"
  shows "strip s = s"
proof -
  have "dropWhile isspace xs = xs" if "\<forall>c \<in> set xs. \<not> isspace c" for xs
    using that by (cases xs) auto
  from this [of s] this [of "rev s"] assms show ?thesis
    by (simp add: strip_def)
qed

lemma quit_word_has_no_space:
  assumes "lower query \<in> set [''quit'', ''exit'', ''q'']"
  shows "strip query = query"
proof (rule strip_without_spaces, rule ballI)
  fix c assume "c \<in> set query"
  then have "lower_char c \<in> set (lower query)" by (simp add: lower_def)
  with assms have "lower_char c \<in> set ''quitex''" by auto
  then show "\<not> isspace c" by (rule quit_letters_not_space)
qed

lemma question_mark_is_not_quit:
  assumes "startswith (strip query) (CHR ''?'')"
  shows "lower query \<notin> set [''quit'', ''exit'', ''q'']"
proof
  assume q: "lower query \<in> set [''quit'', ''exit'', ''q'']"
  then have "strip query = query" by (rule quit_word_has_no_space)
  with assms obtain rest where "query = CHR ''?'' # rest"
    by (auto simp: startswith_def split: list.splits)
  then have "hd (lower query) = lower_char (CHR ''?'')" by (simp add: lower_def)
  moreover have "lower_char (CHR ''?'') = CHR ''?''" by (simp add: lower_char_def)
  ultimately show False using q by auto
qed

lemma blank_is_not_quit:
  assumes "strip query = []"
  shows "lower query \<notin> set [''quit'', ''exit'', ''q'']"
proof
  assume q: "lower query \<in> set [''quit'', ''exit'', ''q'']"
  then have "strip query = query" by (rule quit_word_has_no_space)
  with assms have "query = []" by simp
  with q show False by (simp add: lower_def)
qed

text \<open>
  Claim C8 says that a trimmed line beginning with \<open>?\<close> goes to the answer
  synthesizer, and that the loop ends when the trimmed, lower-cased line is a quit
  word. A line that holds nothing but \<open>?\<close> is answered with a reprompt (line 284),
  and the quit test is made on the line as read (line 273), so a quit word with
  blanks around it is searched for.
\<close>

theorem question_mark_alone_reprompts_counterexample:
  "startswith (strip ''?'') (CHR ''?'')
   \<and> dispatch ''?'' = NoQuestion
   \<and> dispatch ''?'' \<noteq> AskQuestion (strip (drop 1 (strip ''?'')))
   \<and> lower (strip '' quit '') = ''quit''
   \<and> dispatch '' quit '' = CodeSearch '' quit '' 3"
  by code_simp

text \<open>
  Claim C8, amended. The loop ends when the lower-cased line is \<open>quit\<close>, \<open>exit\<close> or
  \<open>q\<close>, and only when the trimmed, lower-cased line is one of them; a line that is
  blank after trimming reprompts; a trimmed line that begins with \<open>?\<close> goes to
  \<open>answer_question\<close> with the \<open>?\<close> and the surrounding blanks removed when
  something is left, and reprompts when nothing is left; every other line whose
  trimmed, lower-cased form is not a quit word goes to \<open>search_similar_chunks\<close> with
  \<open>top_k = 3\<close>. Nothing is said about a quit word with blanks around it.
\<close>

theorem dispatch_by_line:
  "(lower query \<in> set [''quit'', ''exit'', ''q''] \<longrightarrow> dispatch query = Quit)
   \<and> (dispatch query = Quit \<longrightarrow> lower (strip query) \<in> set [''quit'', ''exit'', ''q''])
   \<and> (strip query = [] \<longrightarrow> dispatch query = InvalidQuery)
   \<and> (startswith (strip query) (CHR ''?'') \<and> strip (drop 1 (strip query)) \<noteq> []
        \<longrightarrow> dispatch query = AskQuestion (strip (drop 1 (strip query))))
   \<and> (startswith (strip query) (CHR ''?'') \<and> strip (drop 1 (strip query)) = []
        \<longrightarrow> dispatch query = NoQuestion)
   \<and> (strip query \<noteq> [] \<and> \<not> startswith (strip query) (CHR ''?'')
        \<and> lower (strip query) \<notin> set [''quit'', ''exit'', ''q'']
        \<longrightarrow> dispatch query = CodeSearch query 3)
   \<and> ((interactive_search e fs (query # rest) = ([Quit], Goodbye)) = (dispatch query = Quit))"
proof (intro conjI impI)
  assume "lower query \<in> set [''quit'', ''exit'', ''q'']"
  then show "dispatch query = Quit" by (simp add: dispatch_def)
next
  assume "dispatch query = Quit"
  then have q: "lower query \<in> set [''quit'', ''exit'', ''q'']"
    by (simp add: dispatch_def Let_def split: if_splits)
  then have "strip query = query" by (rule quit_word_has_no_space)
  with q show "lower (strip query) \<in> set [''quit'', ''exit'', ''q'']" by simp
next
  assume b: "strip query = []"
  from blank_is_not_quit [OF b] b show "dispatch query = InvalidQuery"
    by (simp add: dispatch_def)
next
  assume a: "startswith (strip query) (CHR ''?'') \<and> strip (drop 1 (strip query)) \<noteq> []"
  then have "strip query \<noteq> []" by (auto simp: startswith_def)
  with a question_mark_is_not_quit [of query]
  show "dispatch query = AskQuestion (strip (drop 1 (strip query)))"
    by (simp add: dispatch_def)
next
  assume a: "startswith (strip query) (CHR ''?'') \<and> strip (drop 1 (strip query)) = []"
  then have "strip query \<noteq> []" by (auto simp: startswith_def)
  with a question_mark_is_not_quit [of query]
  show "dispatch query = NoQuestion"
    by (simp add: dispatch_def)
next
  assume a: "strip query \<noteq> [] \<and> \<not> startswith (strip query) (CHR ''?'')
        \<and> lower (strip query) \<notin> set [''quit'', ''exit'', ''q'']"
  have "lower query \<notin> set [''quit'', ''exit'', ''q'']"
  proof
    assume q: "lower query \<in> set [''quit'', ''exit'', ''q'']"
    then have "strip query = query" by (rule quit_word_has_no_space)
    with q a show False by simp
  qed
  with a show "dispatch query = CodeSearch query 3"
    by (simp add: dispatch_def)
next
  show "(interactive_search e fs (query # rest) = ([Quit], Goodbye)) = (dispatch query = Quit)"
    by (cases "dispatch query") (auto simp: Let_def split: prod.splits)
qed

theorem dispatch_by_line_witness:
  "lower ''QUIT'' \<in> set [''quit'', ''exit'', ''q''] \<and> dispatch ''QUIT'' = Quit
   \<and> lower (strip ''QUIT'') \<in> set [''quit'', ''exit'', ''q'']
   \<and> strip ''   '' = [] \<and> dispatch ''   '' = InvalidQuery
   \<and> startswith (strip '' ? why  '') (CHR ''?'') \<and> strip (drop 1 (strip '' ? why  '')) \<noteq> []
   \<and> dispatch '' ? why  '' = AskQuestion ''why''
   \<and> startswith (strip ''? '') (CHR ''?'') \<and> strip (drop 1 (strip ''? '')) = []
   \<and> dispatch ''? '' = NoQuestion
   \<and> strip ''load index'' \<noteq> [] \<and> \<not> startswith (strip ''load index'') (CHR ''?'')
   \<and> lower (strip ''load index'') \<notin> set [''quit'', ''exit'', ''q'']
   \<and> dispatch ''load index'' = CodeSearch ''load index'' 3
   \<and> interactive_search counting_env sample_fs [''QUIT'', ''more''] = ([Quit], Goodbye)"
proof -
  have a: "lower ''QUIT'' \<in> set [''quit'', ''exit'', ''q'']" by code_simp
  have b: "strip ''   '' = []" by code_simp
  have c: "startswith (strip '' ? why  '') (CHR ''?'') \<and> strip (drop 1 (strip '' ? why  '')) \<noteq> []"
    by code_simp
  have c': "strip (drop 1 (strip '' ? why  '')) = ''why''" by code_simp
  have d: "startswith (strip ''? '') (CHR ''?'') \<and> strip (drop 1 (strip ''? '')) = []"
    by code_simp
  have f: "strip ''load index'' \<noteq> [] \<and> \<not> startswith (strip ''load index'') (CHR ''?'')
        \<and> lower (strip ''load index'') \<notin> set [''quit'', ''exit'', ''q'']"
    by code_simp
  note t1 = dispatch_by_line [of "''QUIT''" counting_env sample_fs "[''more'']"]
  note t2 = dispatch_by_line [of "''   ''"]
  note t3 = dispatch_by_line [of "'' ? why  ''"]
  note t4 = dispatch_by_line [of "''? ''"]
  note t5 = dispatch_by_line [of "''load index''"]
  have r1: "dispatch ''QUIT'' = Quit" using t1 a by blast
  have r1': "lower (strip ''QUIT'') \<in> set [''quit'', ''exit'', ''q'']" using t1 r1 by blast
  have r1'': "interactive_search counting_env sample_fs [''QUIT'', ''more''] = ([Quit], Goodbye)"
    using t1 r1 by blast
  have r2: "dispatch ''   '' = InvalidQuery" using t2 b by blast
  have r3: "dispatch '' ? why  '' = AskQuestion ''why''" using t3 c c' by metis
  have r4: "dispatch ''? '' = NoQuestion" using t4 d by blast
  have r5: "dispatch ''load index'' = CodeSearch ''load index'' 3" using t5 f by blast
  show ?thesis
    using a b c d f r1 r1' r1'' r2 r3 r4 r5 by blast
qed

end
